theory Spec2Isabelle
  imports Main "HOL-Library.AList"
begin

section \<open>The messaging core of a layered-agent resource\<close>

text \<open>
  A shallow embedding of \<^verbatim>\<open>ace/framework/resource.py\<close> (class \<^verbatim>\<open>Resource\<close>).
  Python strings are \<^typ>\<open>string\<close>, Python's \<^verbatim>\<open>None\<close> result is \<^term>\<open>None\<close>,
  Python integers are \<^typ>\<open>int\<close>.
\<close>

subsection \<open>Settings and constants\<close>

text \<open>
  \<^verbatim>\<open>self.settings\<close>: the fields of the settings object that \<^verbatim>\<open>resource.py\<close> reads.
\<close>

record settings =
  name :: string
  label :: string
  layers :: "string list"

text \<open>
  Modelled from the spec: \<^verbatim>\<open>constants.LAYER_ORIENTATIONS\<close>. The module
  \<^verbatim>\<open>ace/constants.py\<close> is not part of the sources at hand; the spec fixes the closed set
  of directions as southbound and northbound and enumerates them in that order.
\<close>

definition LAYER_ORIENTATIONS :: "string list" where
  "LAYER_ORIENTATIONS = [''southbound'', ''northbound'']"

subsection \<open>Topology: queue and exchange names\<close>

text \<open>
  \<^verbatim>\<open>
  def build_queue_name(self, direction, layer):
      queue = None
      if layer and direction in constants.LAYER_ORIENTATIONS:
          queue = f"{direction}.{layer}"
      return queue
  \<close>
  A string is truthy exactly when it is not empty.
\<close>

definition build_queue_name :: "string \<Rightarrow> string \<Rightarrow> string option" where
  "build_queue_name direction layer =
     (if layer \<noteq> [] \<and> direction \<in> set LAYER_ORIENTATIONS
      then Some (direction @ ''.'' @ layer)
      else None)"

text \<open>
  \<^verbatim>\<open>
  def build_exchange_name(self, direction, layer):
      exchange = None
      queue = self.build_queue_name(direction, layer)
      if queue:
          exchange = f"exchange.{queue}"
      return exchange
  \<close>
  \<^verbatim>\<open>if queue\<close> is false for \<^verbatim>\<open>None\<close> and for the empty string.
\<close>

definition build_exchange_name :: "string \<Rightarrow> string \<Rightarrow> string option" where
  "build_exchange_name direction layer =
     (case build_queue_name direction layer of
        None \<Rightarrow> None
      | Some queue \<Rightarrow> if queue \<noteq> [] then Some (''exchange.'' @ queue) else None)"

text \<open>
  \<^verbatim>\<open>
  def is_existant_layer_queue(self, orientation, idx):
      if (orientation == 'southbound' and idx == 0) or
         (orientation == 'northbound' and idx == len(self.settings.layers) - 1):
          return False
      return True
  \<close>
\<close>

definition is_existant_layer_queue :: "settings \<Rightarrow> string \<Rightarrow> int \<Rightarrow> bool" where
  "is_existant_layer_queue self orientation idx =
     (if (orientation = ''southbound'' \<and> idx = 0)
         \<or> (orientation = ''northbound'' \<and> idx = int (length (layers self)) - 1)
      then False
      else True)"

text \<open>
  \<^verbatim>\<open>
  def build_all_layer_queue_names(self):
      queue_names = []
      for orientation in constants.LAYER_ORIENTATIONS:
          for idx, layer in enumerate(self.settings.layers):
              if self.is_existant_layer_queue(orientation, idx):
                  queue_names.append(self.build_queue_name(orientation, layer))
      return queue_names
  \<close>
  The inner loop runs over the pairs of \<^verbatim>\<open>enumerate\<close>, the outer loop over the
  orientations; both carry the list \<^verbatim>\<open>queue_names\<close>. The appended value is whatever
  \<^verbatim>\<open>build_queue_name\<close> returns, \<^verbatim>\<open>None\<close> included.
\<close>

fun layer_loop ::
  "settings \<Rightarrow> string \<Rightarrow> (nat \<times> string) list \<Rightarrow> string option list \<Rightarrow> string option list"
where
  "layer_loop self orientation [] queue_names = queue_names"
| "layer_loop self orientation ((idx, layer) # rest) queue_names =
     layer_loop self orientation rest
       (if is_existant_layer_queue self orientation (int idx)
        then queue_names @ [build_queue_name orientation layer]
        else queue_names)"

fun orientation_loop :: "settings \<Rightarrow> string list \<Rightarrow> string option list \<Rightarrow> string option list"
where
  "orientation_loop self [] queue_names = queue_names"
| "orientation_loop self (orientation # rest) queue_names =
     orientation_loop self rest
       (layer_loop self orientation (List.enumerate 0 (layers self)) queue_names)"

definition build_all_layer_queue_names :: "settings \<Rightarrow> string option list" where
  "build_all_layer_queue_names self = orientation_loop self LAYER_ORIENTATIONS []"

subsection \<open>Python values and their JSON text\<close>

text \<open>
  The values that \<^verbatim>\<open>json.dumps\<close> serialises and \<^verbatim>\<open>json.loads\<close> gives back: \<^verbatim>\<open>None\<close>,
  booleans, integers, strings, lists, and dictionaries with string keys. A dictionary is
  the list of its items in insertion order; its keys are distinct (\<open>wf_value\<close> below).
  Floating point numbers are left out. A character is one code point below 256.
\<close>

datatype pyval =
    PyNone
  | PyBool bool
  | PyInt int
  | PyStr string
  | PyList "pyval list"
  | PyDict "(string \<times> pyval) list"

type_synonym py_dict = "(string \<times> pyval) list"


text \<open>Decimal digits: \<^verbatim>\<open>str(n)\<close> of a non-negative integer, and of an integer.\<close>

definition digit_char :: "nat \<Rightarrow> char" where
  "digit_char d = char_of (48 + d)"

fun str_of_nat :: "nat \<Rightarrow> string" where
  "str_of_nat n =
     (if n < 10 then [digit_char n] else str_of_nat (n div 10) @ [digit_char (n mod 10)])"

definition str_of_int :: "int \<Rightarrow> string" where
  "str_of_int i = (if i < 0 then CHR ''-'' # str_of_nat (nat (- i)) else str_of_nat (nat i))"

definition is_digit :: "char \<Rightarrow> bool" where
  "is_digit c = (48 \<le> (of_char c :: nat) \<and> (of_char c :: nat) \<le> 57)"

definition digit_val :: "char \<Rightarrow> nat" where
  "digit_val c = of_char c - 48"

definition nat_of_digits :: "string \<Rightarrow> nat" where
  "nat_of_digits ds = foldl (\<lambda>a c. 10 * a + digit_val c) 0 ds"

definition hex_char :: "nat \<Rightarrow> char" where
  "hex_char d = (if d < 10 then char_of (48 + d) else char_of (87 + d))"

definition hex_val :: "char \<Rightarrow> nat option" where
  "hex_val c =
     (let n = (of_char c :: nat)
      in if 48 \<le> n \<and> n \<le> 57 then Some (n - 48)
         else if 97 \<le> n \<and> n \<le> 102 then Some (n - 87)
         else if 65 \<le> n \<and> n \<le> 70 then Some (n - 55)
         else None)"

text \<open>
  A string literal as \<^verbatim>\<open>json.dumps\<close> writes it with its default \<^verbatim>\<open>ensure_ascii=True\<close>:
  the quote and the backslash are escaped, the five short escapes stand for backspace,
  form feed, newline, carriage return and tab, and every other character outside the
  printable ASCII range (space to tilde) is written as \<^verbatim>\<open>\u00xx\<close>.
\<close>

definition escape_char :: "char \<Rightarrow> string" where
  "escape_char c =
     (let n = (of_char c :: nat)
      in if c = CHR 0x22 then [CHR 0x5C, CHR 0x22]
         else if c = CHR 0x5C then [CHR 0x5C, CHR 0x5C]
         else if n = 8 then [CHR 0x5C, CHR ''b'']
         else if n = 12 then [CHR 0x5C, CHR ''f'']
         else if n = 10 then [CHR 0x5C, CHR ''n'']
         else if n = 13 then [CHR 0x5C, CHR ''r'']
         else if n = 9 then [CHR 0x5C, CHR ''t'']
         else if n < 32 \<or> 126 < n
           then [CHR 0x5C, CHR ''u'', CHR ''0'', CHR ''0'', hex_char (n div 16), hex_char (n mod 16)]
         else [c])"

definition encode_string :: "string \<Rightarrow> string" where
  "encode_string s = CHR 0x22 # concat (map escape_char s) @ [CHR 0x22]"

text \<open>
  \<^verbatim>\<open>json.dumps(value)\<close> with the default separators \<^verbatim>\<open>", "\<close> and \<^verbatim>\<open>": "\<close>. The text is
  ASCII, so \<^verbatim>\<open>.encode()\<close> gives the same characters as bytes.
\<close>

fun json_dumps :: "pyval \<Rightarrow> string"
and dumps_items :: "pyval list \<Rightarrow> string"
and dumps_members :: "(string \<times> pyval) list \<Rightarrow> string"
where
  "json_dumps PyNone = ''null''"
| "json_dumps (PyBool b) = (if b then ''true'' else ''false'')"
| "json_dumps (PyInt i) = str_of_int i"
| "json_dumps (PyStr s) = encode_string s"
| "json_dumps (PyList xs) = ''['' @ dumps_items xs @ '']''"
| "json_dumps (PyDict kvs) = ''{'' @ dumps_members kvs @ ''}''"
| "dumps_items [] = []"
| "dumps_items [x] = json_dumps x"
| "dumps_items (x # y # ys) = json_dumps x @ '', '' @ dumps_items (y # ys)"
| "dumps_members [] = []"
| "dumps_members [(k, v)] = encode_string k @ '': '' @ json_dumps v"
| "dumps_members ((k, v) # kv # kvs) =
     encode_string k @ '': '' @ json_dumps v @ '', '' @ dumps_members (kv # kvs)"

text \<open>
  Reading JSON text back, as \<^verbatim>\<open>json.loads\<close> does for the values above: white space
  between tokens is skipped, a number with a fraction or an exponent is refused (no
  floating point here), as is an escape for a code point from 256 on. A repeated key of
  an object keeps its first position and its last value, as \<^verbatim>\<open>dict(pairs)\<close> does. The
  first argument of the three mutually recursive readers bounds the depth of recursion;
  \<open>json_loads\<close> starts them with the length of the text, which is enough for every text.
\<close>

definition unescape :: "char \<Rightarrow> char option" where
  "unescape d =
     (if d = CHR 0x22 then Some (CHR 0x22)
      else if d = CHR 0x5C then Some (CHR 0x5C)
      else if d = CHR ''/'' then Some (CHR ''/'')
      else if d = CHR ''b'' then Some (char_of (8 :: nat))
      else if d = CHR ''f'' then Some (char_of (12 :: nat))
      else if d = CHR ''n'' then Some (char_of (10 :: nat))
      else if d = CHR ''r'' then Some (char_of (13 :: nat))
      else if d = CHR ''t'' then Some (char_of (9 :: nat))
      else None)"

definition unicode_escape :: "char \<Rightarrow> char \<Rightarrow> char \<Rightarrow> char \<Rightarrow> char option" where
  "unicode_escape h1 h2 h3 h4 =
     (case (hex_val h1, hex_val h2, hex_val h3, hex_val h4) of
        (Some v1, Some v2, Some v3, Some v4) \<Rightarrow>
          (let n = ((v1 * 16 + v2) * 16 + v3) * 16 + v4
           in if n < 256 then Some (char_of n) else None)
      | _ \<Rightarrow> None)"

text \<open>The characters of a string literal after its opening quote, and the text after it.\<close>

fun parse_chars :: "string \<Rightarrow> (string \<times> string) option" where
  "parse_chars [] = None"
| "parse_chars (c # cs) =
     (if c = CHR 0x22 then Some ([], cs)
      else if c = CHR 0x5C then
        (case cs of
           [] \<Rightarrow> None
         | d # ds \<Rightarrow>
             if d = CHR ''u'' then
               (case ds of
                  h1 # h2 # h3 # h4 # rest \<Rightarrow>
                    (case unicode_escape h1 h2 h3 h4 of
                       None \<Rightarrow> None
                     | Some ch \<Rightarrow> map_option (\<lambda>(t, r). (ch # t, r)) (parse_chars rest))
                | _ \<Rightarrow> None)
             else
               (case unescape d of
                  None \<Rightarrow> None
                | Some ch \<Rightarrow> map_option (\<lambda>(t, r). (ch # t, r)) (parse_chars ds)))
      else if (of_char c :: nat) < 32 then None
      else map_option (\<lambda>(t, r). (c # t, r)) (parse_chars cs))"

definition is_ws :: "char \<Rightarrow> bool" where
  "is_ws c = (c = CHR '' '' \<or> c = CHR 0x09 \<or> c = CHR 0x0A \<or> c = CHR 0x0D)"

definition skip_ws :: "string \<Rightarrow> string" where
  "skip_ws s = dropWhile is_ws s"

definition strip_prefix :: "string \<Rightarrow> string \<Rightarrow> string option" where
  "strip_prefix p s = (if take (length p) s = p then Some (drop (length p) s) else None)"

definition parse_int :: "string \<Rightarrow> (int \<times> string) option" where
  "parse_int s =
     (let negative = (case s of [] \<Rightarrow> False | c # cs \<Rightarrow> c = CHR ''-'');
          t = (if negative then tl s else s);
          ds = takeWhile is_digit t;
          r = dropWhile is_digit t
      in if ds = [] \<or> (1 < length ds \<and> hd ds = CHR ''0'') then None
         else if (case r of [] \<Rightarrow> False | c # cs \<Rightarrow> c = CHR ''.'' \<or> c = CHR ''e'' \<or> c = CHR ''E'')
           then None
         else Some (if negative then - int (nat_of_digits ds) else int (nat_of_digits ds), r))"

definition dict_of_pairs :: "(string \<times> pyval) list \<Rightarrow> py_dict" where
  "dict_of_pairs kvs = foldl (\<lambda>d (k, v). AList.update k v d) [] kvs"

fun parse_value :: "nat \<Rightarrow> string \<Rightarrow> (pyval \<times> string) option"
and parse_elements :: "nat \<Rightarrow> string \<Rightarrow> (pyval list \<times> string) option"
and parse_members :: "nat \<Rightarrow> string \<Rightarrow> ((string \<times> pyval) list \<times> string) option"
where
  "parse_value 0 s = None"
| "parse_value (Suc n) s =
     (case skip_ws s of
        [] \<Rightarrow> None
      | c # cs \<Rightarrow>
          if c = CHR ''n'' then map_option (\<lambda>r. (PyNone, r)) (strip_prefix ''ull'' cs)
          else if c = CHR ''t'' then map_option (\<lambda>r. (PyBool True, r)) (strip_prefix ''rue'' cs)
          else if c = CHR ''f'' then map_option (\<lambda>r. (PyBool False, r)) (strip_prefix ''alse'' cs)
          else if c = CHR 0x22 then map_option (\<lambda>(t, r). (PyStr t, r)) (parse_chars cs)
          else if c = CHR ''['' then
            (case skip_ws cs of
               [] \<Rightarrow> None
             | d # ds \<Rightarrow>
                 if d = CHR '']'' then Some (PyList [], ds)
                 else map_option (\<lambda>(xs, r). (PyList xs, r)) (parse_elements n cs))
          else if c = CHR ''{'' then
            (case skip_ws cs of
               [] \<Rightarrow> None
             | d # ds \<Rightarrow>
                 if d = CHR ''}'' then Some (PyDict [], ds)
                 else map_option (\<lambda>(kvs, r). (PyDict (dict_of_pairs kvs), r)) (parse_members n cs))
          else map_option (\<lambda>(i, r). (PyInt i, r)) (parse_int (c # cs)))"
| "parse_elements 0 s = None"
| "parse_elements (Suc n) s =
     (case parse_value n s of
        None \<Rightarrow> None
      | Some (v, r) \<Rightarrow>
          (case skip_ws r of
             [] \<Rightarrow> None
           | c # r' \<Rightarrow>
               if c = CHR '','' then map_option (\<lambda>(vs, r''). (v # vs, r'')) (parse_elements n r')
               else if c = CHR '']'' then Some ([v], r')
               else None))"
| "parse_members 0 s = None"
| "parse_members (Suc n) s =
     (case skip_ws s of
        [] \<Rightarrow> None
      | q # s1 \<Rightarrow>
          if q \<noteq> CHR 0x22 then None
          else
            (case parse_chars s1 of
               None \<Rightarrow> None
             | Some (k, s2) \<Rightarrow>
                 (case skip_ws s2 of
                    [] \<Rightarrow> None
                  | colon # s3 \<Rightarrow>
                      if colon \<noteq> CHR '':'' then None
                      else
                        (case parse_value n s3 of
                           None \<Rightarrow> None
                         | Some (v, r) \<Rightarrow>
                             (case skip_ws r of
                                [] \<Rightarrow> None
                              | c # r' \<Rightarrow>
                                  if c = CHR '','' then
                                    map_option (\<lambda>(kvs, r''). ((k, v) # kvs, r'')) (parse_members n r')
                                  else if c = CHR ''}'' then Some ([(k, v)], r')
                                  else None)))))"


text \<open>A text after a value that ends the value: nothing, a comma or a closing bracket.\<close>

definition delimited :: "string \<Rightarrow> bool" where
  "delimited r = (case r of [] \<Rightarrow> True | c # cs \<Rightarrow> c = CHR '','' \<or> c = CHR '']'' \<or> c = CHR ''}'')"

subsection \<open>The message envelope\<close>

text \<open>
  Dictionaries are objects: the caller of \<^verbatim>\<open>build_message\<close> and the method see the same
  one. The heap is the list of the dictionaries allocated so far and a reference is an
  index into it; a new dictionary goes to the end.
  \<^verbatim>\<open>
  def build_message(self, message=None, message_type='data'):
      message = message or {}
      message['type'] = message_type
      message['resource'] = self.settings.name
      return json.dumps(message).encode()
  \<close>
  \<^verbatim>\<open>message or {}\<close> is a new empty dictionary when \<^verbatim>\<open>message\<close> is \<^verbatim>\<open>None\<close> or an empty
  dictionary (both are falsy), and \<^verbatim>\<open>message\<close> itself otherwise. An assignment to a key
  replaces the value of a key that is there and appends the item otherwise. The result is
  the bytes and the heap after the call.
\<close>

type_synonym heap = "py_dict list"

definition build_message :: "settings \<Rightarrow> nat option \<Rightarrow> string \<Rightarrow> heap \<Rightarrow> string \<times> heap" where
  "build_message self message message_type h =
     (let (ref, h1) = (case message of
                         None \<Rightarrow> (length h, h @ [[]])
                       | Some a \<Rightarrow> if h ! a \<noteq> [] then (a, h) else (length h, h @ [[]]));
          h2 = h1[ref := AList.update ''type'' (PyStr message_type) (h1 ! ref)];
          h3 = h2[ref := AList.update ''resource'' (PyStr (name self)) (h2 ! ref)]
      in (json_dumps (PyDict (h3 ! ref)), h3))"

text \<open>The dictionary that \<^verbatim>\<open>build_message\<close> serialises, from the one it starts with.\<close>

definition envelope :: "settings \<Rightarrow> string \<Rightarrow> py_dict \<Rightarrow> py_dict" where
  "envelope self message_type d =
     AList.update ''resource'' (PyStr (name self)) (AList.update ''type'' (PyStr message_type) d)"



subsection \<open>The state of a resource and of the world around it\<close>

text \<open>
  Connections, channels, queues, exchanges and callbacks are objects of the AMQP client
  library; the model knows them by a handle.
\<close>

type_synonym handle = nat

text \<open>
  Exceptions by class: \<^verbatim>\<open>aio_pika.exceptions.ChannelClosed\<close> (and its subclasses), with the
  text that \<^verbatim>\<open>str(e)\<close> gives, and every exception of another class, with the name of
  its class.
\<close>

datatype failure = ChannelClosed string | OtherError string

fun is_ChannelClosed :: "failure \<Rightarrow> bool" where
  "is_ChannelClosed (ChannelClosed message) = True"
| "is_ChannelClosed (OtherError cls) = False"

fun str_of_failure :: "failure \<Rightarrow> string" where
  "str_of_failure (ChannelClosed message) = message"
| "str_of_failure (OtherError cls) = cls"

datatype level = DEBUG | INFO | WARNING

text \<open>
  The coroutines that \<^verbatim>\<open>connect_busses_in_thread\<close> and \<^verbatim>\<open>disconnect_busses\<close> hand to
  \<^verbatim>\<open>run_until_complete\<close>.
\<close>

datatype coroutine =
    GetBussesConnectionAndChannel
  | PostConnect
  | PreDisconnect
  | ChannelClose handle
  | ConnectionClose handle

text \<open>
  What a run does to the outside, in the order it does it: the records it logs and the
  calls it makes on the client library and on the event loop. A call that raises is
  followed by \<open>Raised\<close>; a call that is not, returned.
\<close>

datatype event =
    Log level string
  | ConnectionChannel handle
  | GetQueue handle string
  | QueueConsume handle handle
  | GetExchange handle string
  | Sleep nat
  | RunUntilComplete coroutine
  | RunForever
  | CallSoonThreadsafeStop
  | Raised failure

text \<open>
  The fields of \<^verbatim>\<open>self\<close> that the modelled methods read or assign
  (\<^verbatim>\<open>self.connection\<close>, \<^verbatim>\<open>self.channel\<close>, \<^verbatim>\<open>self.consumer_local_queues\<close>, and of
  \<^verbatim>\<open>self.bus_loop\<close> whether the loop is running), the state \<open>world\<close> of everything outside
  the object (the broker, what the hooks of a subclass act on), and the trace of events so
  far. A \<^verbatim>\<open>queue.Queue\<close> is the list of its buffered items, oldest first; each queue object
  is reachable only through its entry of the dictionary, so the dictionary maps the name
  to the content.
\<close>

record ('m, 'w) state =
  connection :: "handle option"
  channel :: "handle option"
  consumer_local_queues :: "string \<rightharpoonup> 'm list"
  loop_running :: bool
  world :: 'w
  trace :: "event list"

text \<open>
  \<^verbatim>\<open>Resource.__init__\<close>: no connection, no channel, no local queue, and a new event loop,
  which is not running.
\<close>

definition init :: "'w \<Rightarrow> ('m, 'w) state" where
  "init w = \<lparr>connection = None, channel = None, consumer_local_queues = Map.empty,
             loop_running = False, world = w, trace = []\<rparr>"

subsection \<open>Local queues\<close>

text \<open>
  \<^verbatim>\<open>queue.Queue()\<close> is unbounded: \<^verbatim>\<open>put\<close> appends and never blocks. \<^verbatim>\<open>get\<close> takes the
  oldest item; on an empty queue it blocks, which is the value \<^term>\<open>None\<close> here.
\<close>

definition Queue_put :: "'m list \<Rightarrow> 'm \<Rightarrow> 'm list" where
  "Queue_put queue message = queue @ [message]"

definition Queue_empty :: "'m list \<Rightarrow> bool" where
  "Queue_empty queue = (queue = [])"

definition Queue_get :: "'m list \<Rightarrow> ('m \<times> 'm list) option" where
  "Queue_get queue = (case queue of [] \<Rightarrow> None | message # rest \<Rightarrow> Some (message, rest))"

text \<open>
  \<^verbatim>\<open>
  def get_consumer_local_queue(self, queue_name):
      if queue_name not in self.consumer_local_queues:
          self.consumer_local_queues[queue_name] = Queue()
      return self.consumer_local_queues[queue_name]
  \<close>
\<close>

definition get_consumer_local_queue ::
  "('m, 'w) state \<Rightarrow> string \<Rightarrow> 'm list \<times> ('m, 'w) state" where
  "get_consumer_local_queue s queue_name =
     (case consumer_local_queues s queue_name of
        None \<Rightarrow> ([], s\<lparr>consumer_local_queues := (consumer_local_queues s)(queue_name \<mapsto> [])\<rparr>)
      | Some queue \<Rightarrow> (queue, s))"

text \<open>
  \<^verbatim>\<open>
  def push_message_to_consumer_local_queue(self, queue_name, message):
      self.get_consumer_local_queue(queue_name).put(message)
  \<close>
\<close>

definition push_message_to_consumer_local_queue ::
  "('m, 'w) state \<Rightarrow> string \<Rightarrow> 'm \<Rightarrow> ('m, 'w) state" where
  "push_message_to_consumer_local_queue s queue_name message =
     (let (queue, s1) = get_consumer_local_queue s queue_name
      in s1\<lparr>consumer_local_queues :=
             (consumer_local_queues s1)(queue_name \<mapsto> Queue_put queue message)\<rparr>)"

text \<open>
  \<^verbatim>\<open>
  def get_messages_from_consumer_local_queue(self, queue_name):
      messages = []
      queue = self.get_consumer_local_queue(queue_name)
      while not queue.empty():
          messages.append(queue.get())
      return messages
  \<close>
  The loop carries \<^verbatim>\<open>messages\<close> and the content of the queue. The result \<^term>\<open>None\<close>
  stands for a call that blocks in \<^verbatim>\<open>queue.get()\<close>.
\<close>

function drain_loop :: "'m list \<Rightarrow> 'm list \<Rightarrow> ('m list \<times> 'm list) option" where
  "drain_loop messages queue =
     (if \<not> Queue_empty queue
      then (case Queue_get queue of
              None \<Rightarrow> None
            | Some (message, queue') \<Rightarrow> drain_loop (messages @ [message]) queue')
      else Some (messages, queue))"
  by pat_completeness auto
termination
  by (relation "measure (\<lambda>(messages, queue). length queue)")
     (auto simp: Queue_get_def split: list.splits)

definition get_messages_from_consumer_local_queue ::
  "('m, 'w) state \<Rightarrow> string \<Rightarrow> ('m list \<times> ('m, 'w) state) option" where
  "get_messages_from_consumer_local_queue s queue_name =
     (let (queue, s1) = get_consumer_local_queue s queue_name
      in case drain_loop [] queue of
           None \<Rightarrow> None
         | Some (messages, queue') \<Rightarrow>
             Some (messages,
                   s1\<lparr>consumer_local_queues := (consumer_local_queues s1)(queue_name \<mapsto> queue')\<rparr>))"

text \<open>A sequence of push calls on one queue name, in the order of the list.\<close>

definition push_all :: "('m, 'w) state \<Rightarrow> string \<Rightarrow> 'm list \<Rightarrow> ('m, 'w) state" where
  "push_all s queue_name messages =
     foldl (\<lambda>s' message. push_message_to_consumer_local_queue s' queue_name message) s messages"

text \<open>The messages buffered under a name: none when the name has no queue yet.\<close>

definition pending :: "('m, 'w) state \<Rightarrow> string \<Rightarrow> 'm list" where
  "pending s queue_name =
     (case consumer_local_queues s queue_name of None \<Rightarrow> [] | Some queue \<Rightarrow> queue)"

subsection \<open>The AMQP client and the event loop\<close>

text \<open>
  The calls of \<^verbatim>\<open>resource.py\<close> on \<^verbatim>\<open>aio_pika\<close> and \<^verbatim>\<open>asyncio\<close>, as functions on the world:
  \<^verbatim>\<open>channel.is_closed\<close>, \<^verbatim>\<open>await connection.channel()\<close>, \<^verbatim>\<open>await channel.get_queue(name)\<close>,
  \<^verbatim>\<open>await queue.consume(callback)\<close>, \<^verbatim>\<open>await channel.get_exchange(name)\<close>,
  \<^verbatim>\<open>await asyncio.sleep(seconds)\<close>, \<^verbatim>\<open>await get_connection_and_channel(...)\<close> (of the module
  \<^verbatim>\<open>ace.amqp.connection\<close>, which gives the connection and the channel), the hooks
  \<^verbatim>\<open>post_connect\<close> and \<^verbatim>\<open>pre_disconnect\<close> that a subclass may override,
  \<^verbatim>\<open>await channel.close()\<close>, \<^verbatim>\<open>await connection.close()\<close> and
  \<^verbatim>\<open>bus_loop.call_soon_threadsafe(bus_loop.stop)\<close>, which posts the stop and returns. A
  call returns a value or raises. Cancellation of a sleeping task is outside the model,
  so \<open>sleep\<close> always returns.
\<close>

record 'w environment =
  is_closed :: "handle \<Rightarrow> 'w \<Rightarrow> bool"
  connection_channel :: "handle \<Rightarrow> 'w \<Rightarrow> (failure + handle) \<times> 'w"
  get_queue :: "handle \<Rightarrow> string \<Rightarrow> 'w \<Rightarrow> (failure + handle) \<times> 'w"
  queue_consume :: "handle \<Rightarrow> handle \<Rightarrow> 'w \<Rightarrow> (failure + unit) \<times> 'w"
  get_exchange :: "handle \<Rightarrow> string \<Rightarrow> 'w \<Rightarrow> (failure + handle) \<times> 'w"
  sleep :: "nat \<Rightarrow> 'w \<Rightarrow> 'w"
  get_connection_and_channel :: "'w \<Rightarrow> (failure + handle \<times> handle) \<times> 'w"
  post_connect :: "'w \<Rightarrow> (failure + unit) \<times> 'w"
  pre_disconnect :: "'w \<Rightarrow> (failure + unit) \<times> 'w"
  channel_close :: "handle \<Rightarrow> 'w \<Rightarrow> (failure + unit) \<times> 'w"
  connection_close :: "handle \<Rightarrow> 'w \<Rightarrow> (failure + unit) \<times> 'w"
  call_soon_threadsafe_stop :: "'w \<Rightarrow> 'w"

type_synonym ('a, 'm, 'w) action = "('m, 'w) state \<Rightarrow> (failure + 'a) \<times> ('m, 'w) state"

definition emit :: "event \<Rightarrow> ('m, 'w) state \<Rightarrow> ('m, 'w) state" where
  "emit ev s = s\<lparr>trace := trace s @ [ev]\<rparr>"

text \<open>A call on the outside: the event, then the new world and the value or the exception.\<close>

definition call :: "event \<Rightarrow> ('w \<Rightarrow> (failure + 'a) \<times> 'w) \<Rightarrow> ('a, 'm, 'w) action" where
  "call ev f s =
     (case f (world s) of
        (Inl e, w) \<Rightarrow> (Inl e, s\<lparr>world := w, trace := trace s @ [ev, Raised e]\<rparr>)
      | (Inr a, w) \<Rightarrow> (Inr a, s\<lparr>world := w, trace := trace s @ [ev]\<rparr>))"

text \<open>An attribute of \<^verbatim>\<open>None\<close>: \<^verbatim>\<open>self.channel\<close> and \<^verbatim>\<open>self.connection\<close> before connecting.\<close>

definition attribute_error :: "('a, 'm, 'w) action" where
  "attribute_error s =
     (Inl (OtherError ''AttributeError''), emit (Raised (OtherError ''AttributeError'')) s)"

text \<open>
  The start of both retry loops' \<^verbatim>\<open>try\<close> block:
  \<^verbatim>\<open>
  if self.channel.is_closed:
      logger.info("Previous channel was closed, creating new channel...")
      self.channel = await self.connection.channel()
  \<close>
  It returns the channel that the rest of the block uses.
\<close>

definition ensure_channel :: "'w environment \<Rightarrow> (handle, 'm, 'w) action" where
  "ensure_channel env s =
     (case channel s of
        None \<Rightarrow> attribute_error s
      | Some ch \<Rightarrow>
          if is_closed env ch (world s)
          then (let s1 = emit (Log INFO ''Previous channel was closed, creating new channel...'') s
                in case connection s1 of
                     None \<Rightarrow> attribute_error s1
                   | Some cn \<Rightarrow>
                       (case call (ConnectionChannel cn) (connection_channel env cn) s1 of
                          (Inl e, s2) \<Rightarrow> (Inl e, s2)
                        | (Inr ch', s2) \<Rightarrow> (Inr ch', s2\<lparr>channel := Some ch'\<rparr>)))
          else (Inr ch, s))"

text \<open>
  The \<^verbatim>\<open>try\<close> block of \<^verbatim>\<open>try_queue_subscribe\<close>:
  \<^verbatim>\<open>
  if self.channel.is_closed: ...
  queue = await self.channel.get_queue(queue_name)
  await queue.consume(callback)
  logger.info(f"Subscribed to queue: {queue_name}")
  return
  \<close>
\<close>

definition subscribe_attempt :: "'w environment \<Rightarrow> string \<Rightarrow> handle \<Rightarrow> (unit, 'm, 'w) action" where
  "subscribe_attempt env queue_name callback s =
     (case ensure_channel env s of
        (Inl e, s1) \<Rightarrow> (Inl e, s1)
      | (Inr ch, s1) \<Rightarrow>
          (case call (GetQueue ch queue_name) (get_queue env ch queue_name) s1 of
             (Inl e, s2) \<Rightarrow> (Inl e, s2)
           | (Inr queue, s2) \<Rightarrow>
               (case call (QueueConsume queue callback) (queue_consume env queue callback) s2 of
                  (Inl e, s3) \<Rightarrow> (Inl e, s3)
                | (Inr u, s3) \<Rightarrow>
                    (Inr (), emit (Log INFO (''Subscribed to queue: '' @ queue_name)) s3))))"

text \<open>
  The \<^verbatim>\<open>except\<close> block of both loops. The constant
  \<^verbatim>\<open>constants.QUEUE_SUBSCRIBE_RETRY_SECONDS\<close> is defined in \<^verbatim>\<open>ace/constants.py\<close>, which is
  not part of the sources at hand: the loops take it as the parameter \<open>secs\<close>, a number
  of seconds.
  \<^verbatim>\<open>
  logger.warning(f"Error occurred: {str(e)}. Trying again in
                   {constants.QUEUE_SUBSCRIBE_RETRY_SECONDS} seconds.")
  await asyncio.sleep(constants.QUEUE_SUBSCRIBE_RETRY_SECONDS)
  \<close>
\<close>

definition backoff :: "'w environment \<Rightarrow> nat \<Rightarrow> failure \<Rightarrow> ('m, 'w) state \<Rightarrow> ('m, 'w) state" where
  "backoff env secs e s =
     (let s1 = emit (Log WARNING (''Error occurred: '' @ str_of_failure e @ ''. Trying again in ''
                                   @ str_of_nat secs @ '' seconds.'')) s
      in s1\<lparr>world := sleep env secs (world s1), trace := trace s1 @ [Sleep secs]\<rparr>)"

text \<open>
  \<^verbatim>\<open>
  async def try_queue_subscribe(self, queue_name, callback):
      while True:
          logger.debug(f"Trying to subscribe to queue: {queue_name}...")
          try:
              ...
              return
          except (aio_pika.exceptions.ChannelClosed, aio_pika.exceptions.ChannelClosed) as e:
              ...
  \<close>
  The loop has no bound: a run that never leaves it has the value \<^term>\<open>None\<close>. A run that
  returns gives \<open>Inr ()\<close>, a run that raises gives the exception.
\<close>

partial_function (option) try_queue_subscribe ::
  "'w environment \<Rightarrow> nat \<Rightarrow> string \<Rightarrow> handle \<Rightarrow> ('m, 'w) state
     \<Rightarrow> ((failure + unit) \<times> ('m, 'w) state) option"
where
  "try_queue_subscribe env secs queue_name callback s =
     (case subscribe_attempt env queue_name callback
             (emit (Log DEBUG (''Trying to subscribe to queue: '' @ queue_name @ ''...'')) s) of
        (Inr u, s1) \<Rightarrow> Some (Inr u, s1)
      | (Inl e, s1) \<Rightarrow>
          if is_ChannelClosed e
          then try_queue_subscribe env secs queue_name callback (backoff env secs e s1)
          else Some (Inl e, s1))"

text \<open>
  The \<^verbatim>\<open>try\<close> block of \<^verbatim>\<open>try_get_exchange\<close>:
  \<^verbatim>\<open>
  if self.channel.is_closed: ...
  exchange = await self.channel.get_exchange(exchange_name)
  return exchange
  \<close>
\<close>

definition exchange_attempt :: "'w environment \<Rightarrow> string \<Rightarrow> (handle, 'm, 'w) action" where
  "exchange_attempt env exchange_name s =
     (case ensure_channel env s of
        (Inl e, s1) \<Rightarrow> (Inl e, s1)
      | (Inr ch, s1) \<Rightarrow> call (GetExchange ch exchange_name) (get_exchange env ch exchange_name) s1)"

partial_function (option) try_get_exchange ::
  "'w environment \<Rightarrow> nat \<Rightarrow> string \<Rightarrow> ('m, 'w) state
     \<Rightarrow> ((failure + handle) \<times> ('m, 'w) state) option"
where
  "try_get_exchange env secs exchange_name s =
     (case exchange_attempt env exchange_name
             (emit (Log DEBUG (''Trying to get exchange: '' @ exchange_name @ ''...'')) s) of
        (Inr exchange, s1) \<Rightarrow> Some (Inr exchange, s1)
      | (Inl e, s1) \<Rightarrow>
          if is_ChannelClosed e
          then try_get_exchange env secs exchange_name (backoff env secs e s1)
          else Some (Inl e, s1))"

text \<open>
  \<^verbatim>\<open>
  @property
  def labeled_name(self):
      return f"{self.settings.name} ({self.settings.label})"
  \<close>
\<close>

definition labeled_name :: "settings \<Rightarrow> string" where
  "labeled_name self = name self @ '' ('' @ label self @ '')''"

subsection \<open>Connecting and disconnecting\<close>

text \<open>The body of a coroutine that only acts on the world.\<close>

definition on_world :: "('w \<Rightarrow> (failure + 'a) \<times> 'w) \<Rightarrow> ('a, 'm, 'w) action" where
  "on_world f s = (case f (world s) of (r, w) \<Rightarrow> (r, s\<lparr>world := w\<rparr>))"

text \<open>
  \<^verbatim>\<open>self.bus_loop.run_until_complete(coroutine)\<close>, as \<^verbatim>\<open>asyncio\<close> has it: on a loop that is
  running (in whatever thread) the call raises \<^verbatim>\<open>RuntimeError\<close> and the coroutine is not
  run; otherwise the coroutine runs to its end, and the call returns its value or raises
  its exception.
\<close>

definition run_until_complete :: "coroutine \<Rightarrow> ('a, 'm, 'w) action \<Rightarrow> ('a, 'm, 'w) action" where
  "run_until_complete c body s =
     (let s0 = emit (RunUntilComplete c) s
      in if loop_running s0
         then (Inl (OtherError ''RuntimeError''), emit (Raised (OtherError ''RuntimeError'')) s0)
         else (case body s0 of
                 (Inl e, s1) \<Rightarrow> (Inl e, emit (Raised e) s1)
               | (Inr a, s1) \<Rightarrow> (Inr a, s1)))"

text \<open>
  \<^verbatim>\<open>self.bus_loop.run_forever()\<close> does not return while the loop runs. The state it gives
  here is the one in which the thread that called it stays: the loop is running.
\<close>

definition run_forever :: "(unit, 'm, 'w) action" where
  "run_forever s =
     (let s0 = emit RunForever s
      in if loop_running s0
         then (Inl (OtherError ''RuntimeError''), emit (Raised (OtherError ''RuntimeError'')) s0)
         else (Inr (), s0\<lparr>loop_running := True\<rparr>))"

text \<open>
  \<^verbatim>\<open>
  async def get_busses_connection_and_channel(self):
      logger.debug(f"{self.labeled_name} getting busses connection and channel...")
      self.connection, self.channel = await get_connection_and_channel(
          settings=self.settings, loop=self.bus_loop)
      logger.info(f"{self.labeled_name} busses connection established...")
  \<close>
\<close>

definition get_busses_connection_and_channel ::
  "'w environment \<Rightarrow> settings \<Rightarrow> (unit, 'm, 'w) action" where
  "get_busses_connection_and_channel env self s =
     (let s0 = emit (Log DEBUG (labeled_name self @ '' getting busses connection and channel...'')) s
      in case on_world (get_connection_and_channel env) s0 of
           (Inl e, s1) \<Rightarrow> (Inl e, s1)
         | (Inr (cn, ch), s1) \<Rightarrow>
             (Inr (),
              emit (Log INFO (labeled_name self @ '' busses connection established...''))
                (s1\<lparr>connection := Some cn, channel := Some ch\<rparr>)))"

text \<open>
  The target of the thread that \<^verbatim>\<open>connect_busses\<close> starts:
  \<^verbatim>\<open>
  def connect_busses_in_thread(self):
      asyncio.set_event_loop(self.bus_loop)
      self.bus_loop.run_until_complete(self.get_busses_connection_and_channel())
      self.bus_loop.run_until_complete(self.post_connect())
      self.bus_loop.run_forever()
  \<close>
  The result \<open>Inr ()\<close> is the state in which the thread stays in \<^verbatim>\<open>run_forever\<close>, which is
  the state a caller on another thread finds from then on.
\<close>

definition connect_busses_in_thread :: "'w environment \<Rightarrow> settings \<Rightarrow> (unit, 'm, 'w) action" where
  "connect_busses_in_thread env self s =
     (case run_until_complete GetBussesConnectionAndChannel
             (get_busses_connection_and_channel env self) s of
        (Inl e, s1) \<Rightarrow> (Inl e, s1)
      | (Inr u1, s1) \<Rightarrow>
          (case run_until_complete PostConnect (on_world (post_connect env)) s1 of
             (Inl e, s2) \<Rightarrow> (Inl e, s2)
           | (Inr u2, s2) \<Rightarrow> run_forever s2))"

text \<open>
  \<^verbatim>\<open>
  def disconnect_busses(self):
      logger.debug(f"{self.labeled_name} disconnecting from busses...")
      self.bus_loop.run_until_complete(self.pre_disconnect())
      self.bus_loop.run_until_complete(self.channel.close())
      self.bus_loop.run_until_complete(self.connection.close())
      self.bus_loop.call_soon_threadsafe(self.bus_loop.stop)
      logger.info(f"{self.labeled_name} busses connection closed...")
  \<close>
  An exception of any step ends the method there. The argument of a call is evaluated
  before the call: \<^verbatim>\<open>self.channel.close()\<close> on a channel that is \<^verbatim>\<open>None\<close> raises before
  \<^verbatim>\<open>run_until_complete\<close> is entered.
\<close>

definition disconnect_busses :: "'w environment \<Rightarrow> settings \<Rightarrow> (unit, 'm, 'w) action" where
  "disconnect_busses env self s =
     (let s0 = emit (Log DEBUG (labeled_name self @ '' disconnecting from busses...'')) s
      in case run_until_complete PreDisconnect (on_world (pre_disconnect env)) s0 of
           (Inl e, s1) \<Rightarrow> (Inl e, s1)
         | (Inr u1, s1) \<Rightarrow>
             (case channel s1 of
                None \<Rightarrow> attribute_error s1
              | Some ch \<Rightarrow>
                  (case run_until_complete (ChannelClose ch)
                          (on_world (channel_close env ch)) s1 of
                     (Inl e, s2) \<Rightarrow> (Inl e, s2)
                   | (Inr u2, s2) \<Rightarrow>
                       (case connection s2 of
                          None \<Rightarrow> attribute_error s2
                        | Some cn \<Rightarrow>
                            (case run_until_complete (ConnectionClose cn)
                                    (on_world (connection_close env cn)) s2 of
                               (Inl e, s3) \<Rightarrow> (Inl e, s3)
                             | (Inr u3, s3) \<Rightarrow>
                                 (Inr (),
                                  emit (Log INFO (labeled_name self @ '' busses connection closed...''))
                                    (s3\<lparr>world := call_soon_threadsafe_stop env (world s3),
                                        trace := trace s3 @ [CallSoonThreadsafeStop]\<rparr>)))))))"

subsection \<open>A simulated broker and event loop\<close>

text \<open>
  A test double for the environment, for the simulated scenarios. Handles are handed out
  in increasing order. The successive lookups (\<open>get_queue\<close>, \<open>get_exchange\<close>) take
  their outcomes from a script: \<^term>\<open>None\<close> (or an exhausted script) lets the lookup
  succeed, \<open>Some e\<close> makes it raise \<open>e\<close>; a channel-closed failure leaves the channel
  closed, as the broker does when it closes a channel on an error. A new channel is open.
  Connecting gives a new connection and a new channel on it. The hooks and the two closes
  succeed and are recorded in \<open>completed\<close>; closing a channel leaves it closed.
\<close>

record sim =
  closed_channels :: "handle list"
  next_handle :: handle
  script :: "failure option list"
  consumers :: "(handle \<times> handle) list"
  clock :: nat
  completed :: "coroutine list"
  stop_posted :: bool

definition sim_lookup :: "handle \<Rightarrow> sim \<Rightarrow> (failure + handle) \<times> sim" where
  "sim_lookup ch w =
     (case script w of
        [] \<Rightarrow> (Inr (next_handle w), w\<lparr>next_handle := Suc (next_handle w)\<rparr>)
      | None # rest \<Rightarrow>
          (Inr (next_handle w), w\<lparr>script := rest, next_handle := Suc (next_handle w)\<rparr>)
      | Some e # rest \<Rightarrow>
          (Inl e, w\<lparr>script := rest,
                    closed_channels := (if is_ChannelClosed e then ch # closed_channels w
                                        else closed_channels w)\<rparr>))"

definition sim_env :: "sim environment" where
  "sim_env =
     \<lparr>is_closed = (\<lambda>ch w. ch \<in> set (closed_channels w)),
      connection_channel = (\<lambda>cn w. (Inr (next_handle w), w\<lparr>next_handle := Suc (next_handle w)\<rparr>)),
      get_queue = (\<lambda>ch queue_name w. sim_lookup ch w),
      queue_consume = (\<lambda>queue callback w. (Inr (), w\<lparr>consumers := consumers w @ [(queue, callback)]\<rparr>)),
      get_exchange = (\<lambda>ch exchange_name w. sim_lookup ch w),
      sleep = (\<lambda>secs w. w\<lparr>clock := clock w + secs\<rparr>),
      get_connection_and_channel =
        (\<lambda>w. (Inr (next_handle w, Suc (next_handle w)),
               w\<lparr>next_handle := Suc (Suc (next_handle w))\<rparr>)),
      post_connect = (\<lambda>w. (Inr (), w\<lparr>completed := completed w @ [PostConnect]\<rparr>)),
      pre_disconnect = (\<lambda>w. (Inr (), w\<lparr>completed := completed w @ [PreDisconnect]\<rparr>)),
      channel_close =
        (\<lambda>ch w. (Inr (), w\<lparr>completed := completed w @ [ChannelClose ch],
                             closed_channels := ch # closed_channels w\<rparr>)),
      connection_close = (\<lambda>cn w. (Inr (), w\<lparr>completed := completed w @ [ConnectionClose cn]\<rparr>)),
      call_soon_threadsafe_stop = (\<lambda>w. w\<lparr>stop_posted := True\<rparr>)\<rparr>"

text \<open>The simulated world before anything is connected.\<close>

definition sim_new :: sim where
  "sim_new = \<lparr>closed_channels = [], next_handle = 0, script = [], consumers = [],
              clock = 0, completed = [], stop_posted = False\<rparr>"

text \<open>
  A resource whose connection 0 and channel 1 are assigned, in a world whose lookups
  follow the given outcomes.
\<close>

definition sim_start :: "failure option list \<Rightarrow> ('m, sim) state" where
  "sim_start outcomes =
     \<lparr>connection = Some 0, channel = Some 1, consumer_local_queues = Map.empty,
      loop_running = False,
      world = \<lparr>closed_channels = [], next_handle = 2, script = outcomes, consumers = [],
               clock = 0, completed = [], stop_posted = False\<rparr>,
      trace = []\<rparr>"

section \<open>Properties\<close>

subsection \<open>Topology\<close>

lemma build_queue_name_nonempty:
  "build_queue_name direction layer = Some queue \<Longrightarrow> queue \<noteq> []"
  by (auto simp: build_queue_name_def split: if_splits)

text \<open>
  C5. For a non-empty layer list and an index in range, \<^verbatim>\<open>is_existant_layer_queue\<close> is
  false if and only if the direction is southbound and the index is 0, or the direction is
  northbound and the index is the last one, \<^verbatim>\<open>len(layers) - 1\<close>.
\<close>

theorem is_existant_layer_queue_iff:
  assumes "layers self \<noteq> []" and "0 \<le> idx" and "idx < int (length (layers self))"
  shows "is_existant_layer_queue self direction idx = False
         \<longleftrightarrow> (direction = ''southbound'' \<and> idx = 0)
           \<or> (direction = ''northbound'' \<and> idx = int (length (layers self)) - 1)"
  by (simp add: is_existant_layer_queue_def)

theorem is_existant_layer_queue_iff_witness:
  "is_existant_layer_queue \<lparr>name = ''R'', label = ''r'', layers = [''L0'', ''L1'', ''L2'']\<rparr>
     ''northbound'' 2 = False
   \<and> is_existant_layer_queue \<lparr>name = ''R'', label = ''r'', layers = [''L0'', ''L1'', ''L2'']\<rparr>
     ''southbound'' 2 = True"
  using is_existant_layer_queue_iff
          [of "\<lparr>name = ''R'', label = ''r'', layers = [''L0'', ''L1'', ''L2'']\<rparr>" 2 "''northbound''"]
        is_existant_layer_queue_iff
          [of "\<lparr>name = ''R'', label = ''r'', layers = [''L0'', ''L1'', ''L2'']\<rparr>" 2 "''southbound''"]
  by simp

lemma layer_loop_filter:
  "layer_loop self orientation ps acc =
     acc @ map (\<lambda>p. build_queue_name orientation (snd p))
               (filter (\<lambda>p. is_existant_layer_queue self orientation (int (fst p))) ps)"
  by (induction self orientation ps acc rule: layer_loop.induct) auto

lemma filter_enumerate_southbound:
  "filter (\<lambda>p. is_existant_layer_queue self ''southbound'' (int (fst p))) (List.enumerate 0 xs)
     = List.enumerate 1 (tl xs)"
proof (cases xs)
  case Nil
  then show ?thesis by simp
next
  case (Cons y ys)
  have "\<forall>p \<in> set (List.enumerate (Suc 0) ys). is_existant_layer_queue self ''southbound'' (int (fst p))"
    by (auto simp: is_existant_layer_queue_def in_set_enumerate_eq)
  then have "filter (\<lambda>p. is_existant_layer_queue self ''southbound'' (int (fst p))) (List.enumerate (Suc 0) ys)
               = List.enumerate (Suc 0) ys"
    by (simp add: filter_id_conv)
  then show ?thesis
    using Cons by (simp add: is_existant_layer_queue_def)
qed

lemma filter_enumerate_northbound:
  "filter (\<lambda>p. is_existant_layer_queue self ''northbound'' (int (fst p))) (List.enumerate 0 (layers self))
     = List.enumerate 0 (butlast (layers self))"
proof (cases "layers self" rule: rev_cases)
  case Nil
  then show ?thesis by simp
next
  case (snoc ys y)
  have "\<forall>p \<in> set (List.enumerate 0 ys). is_existant_layer_queue self ''northbound'' (int (fst p))"
    using snoc by (auto simp: is_existant_layer_queue_def in_set_enumerate_eq)
  then have "filter (\<lambda>p. is_existant_layer_queue self ''northbound'' (int (fst p))) (List.enumerate 0 ys)
               = List.enumerate 0 ys"
    by (simp add: filter_id_conv)
  then show ?thesis
    using snoc by (simp add: enumerate_append_eq is_existant_layer_queue_def)
qed

lemma map_snd_enumerate_fun:
  "map (\<lambda>p. f (snd p)) (List.enumerate n xs) = map f xs"
  by (induction xs arbitrary: n) simp_all

lemma layer_loop_southbound:
  "layer_loop self ''southbound'' (List.enumerate 0 (layers self)) acc
     = acc @ map (build_queue_name ''southbound'') (tl (layers self))"
by (simp add: layer_loop_filter filter_enumerate_southbound map_snd_enumerate_fun)

lemma layer_loop_northbound:
  "layer_loop self ''northbound'' (List.enumerate 0 (layers self)) acc
     = acc @ map (build_queue_name ''northbound'') (butlast (layers self))"
by (simp add: layer_loop_filter filter_enumerate_northbound map_snd_enumerate_fun)

lemma build_all_layer_queue_names_closed_form:
  "build_all_layer_queue_names self =
     map (build_queue_name ''southbound'') (tl (layers self))
     @ map (build_queue_name ''northbound'') (butlast (layers self))"
  by (simp add: build_all_layer_queue_names_def LAYER_ORIENTATIONS_def
        layer_loop_southbound layer_loop_northbound)

text \<open>
  C6. \<^verbatim>\<open>build_queue_name\<close> returns \<^verbatim>\<open>"<direction>.<layer>"\<close> when the layer is not
  empty and the direction is southbound or northbound, and \<^verbatim>\<open>None\<close> in every other
  case; \<^verbatim>\<open>build_exchange_name\<close> is \<^verbatim>\<open>"exchange."\<close> prepended to that queue name when
  the queue name is defined, and is \<^verbatim>\<open>None\<close> exactly when the queue name is. Neither
  function has a raising branch on strings.
\<close>

theorem build_queue_and_exchange_name:
  "build_queue_name direction layer =
     (if layer \<noteq> [] \<and> (direction = ''southbound'' \<or> direction = ''northbound'')
      then Some (direction @ ''.'' @ layer) else None)
   \<and> build_exchange_name direction layer
       = map_option (\<lambda>queue. ''exchange.'' @ queue) (build_queue_name direction layer)
   \<and> (build_exchange_name direction layer = None) = (build_queue_name direction layer = None)"
  by (auto simp: build_queue_name_def build_exchange_name_def LAYER_ORIENTATIONS_def)

theorem build_queue_and_exchange_name_witness:
  "build_queue_name ''southbound'' ''L1'' = Some ''southbound.L1''
   \<and> build_exchange_name ''southbound'' ''L1'' = Some ''exchange.southbound.L1''
   \<and> build_queue_name ''eastbound'' ''L1'' = None
   \<and> build_exchange_name ''eastbound'' ''L1'' = None
   \<and> build_queue_name ''northbound'' [] = None
   \<and> build_exchange_name ''northbound'' [] = None"
  using build_queue_and_exchange_name [of "''southbound''" "''L1''"]
        build_queue_and_exchange_name [of "''eastbound''" "''L1''"]
        build_queue_and_exchange_name [of "''northbound''" "[]"]
  by simp

text \<open>
  C4. For the three layers L0, L1, L2 \<^verbatim>\<open>build_all_layer_queue_names\<close> returns exactly
  southbound.L1, southbound.L2, northbound.L0, northbound.L1, in this order.
\<close>

theorem build_all_layer_queue_names_three_layers:
  assumes "layers self = [''L0'', ''L1'', ''L2'']"
  shows "build_all_layer_queue_names self =
           [Some ''southbound.L1'', Some ''southbound.L2'',
            Some ''northbound.L0'', Some ''northbound.L1'']"
  using assms
  by (simp add: build_all_layer_queue_names_def LAYER_ORIENTATIONS_def enumerate_eq_zip
        is_existant_layer_queue_def build_queue_name_def upt_rec)

theorem build_all_layer_queue_names_three_layers_witness:
  "build_all_layer_queue_names \<lparr>name = ''R'', label = ''r'', layers = [''L0'', ''L1'', ''L2'']\<rparr> =
     [Some ''southbound.L1'', Some ''southbound.L2'',
      Some ''northbound.L0'', Some ''northbound.L1'']"
  using build_all_layer_queue_names_three_layers
          [of "\<lparr>name = ''R'', label = ''r'', layers = [''L0'', ''L1'', ''L2'']\<rparr>"]
  by simp

text \<open>
  C9. For a layer list of length n \<ge> 1 whose layer names are not empty,
  \<^verbatim>\<open>build_all_layer_queue_names\<close> returns exactly 2 * (n - 1) names (no \<^verbatim>\<open>None\<close> among
  them): the pass over the layers for southbound contributes n - 1 of them, the pass for
  northbound the other n - 1. For a single layer the result is the empty list.
\<close>

theorem build_all_layer_queue_names_count:
  assumes "layers self \<noteq> []" and "\<forall>layer \<in> set (layers self). layer \<noteq> []"
  shows "length (build_all_layer_queue_names self) = 2 * (length (layers self) - 1)
       \<and> None \<notin> set (build_all_layer_queue_names self)
       \<and> build_all_layer_queue_names self =
           layer_loop self ''southbound'' (List.enumerate 0 (layers self)) []
           @ layer_loop self ''northbound'' (List.enumerate 0 (layers self)) []
       \<and> length (layer_loop self ''southbound'' (List.enumerate 0 (layers self)) [])
           = length (layers self) - 1
       \<and> length (layer_loop self ''northbound'' (List.enumerate 0 (layers self)) [])
           = length (layers self) - 1
       \<and> (length (layers self) = 1 \<longrightarrow> build_all_layer_queue_names self = [])"
proof -
  have sb: "map (build_queue_name ''southbound'') (tl (layers self))
              = map (\<lambda>layer. Some (''southbound.'' @ layer)) (tl (layers self))"
    using assms by (auto simp: build_queue_name_def LAYER_ORIENTATIONS_def dest: list.set_sel(2))
  have nb: "map (build_queue_name ''northbound'') (butlast (layers self))
              = map (\<lambda>layer. Some (''northbound.'' @ layer)) (butlast (layers self))"
    using assms by (auto simp: build_queue_name_def LAYER_ORIENTATIONS_def dest: in_set_butlastD)
  have none: "None \<notin> set (build_all_layer_queue_names self)"
    unfolding build_all_layer_queue_names_closed_form sb nb by auto
  have single: "length (layers self) = 1 \<longrightarrow> tl (layers self) = [] \<and> butlast (layers self) = []"
    by (cases "layers self") auto
  show ?thesis
    using none single
    by (simp add: build_all_layer_queue_names_closed_form layer_loop_southbound layer_loop_northbound)
qed

theorem build_all_layer_queue_names_count_witness:
  "length (build_all_layer_queue_names
             \<lparr>name = ''R'', label = ''r'', layers = [''L0'', ''L1'', ''L2'']\<rparr>) = 4
   \<and> None \<notin> set (build_all_layer_queue_names
             \<lparr>name = ''R'', label = ''r'', layers = [''L0'', ''L1'', ''L2'']\<rparr>)
   \<and> build_all_layer_queue_names \<lparr>name = ''R'', label = ''r'', layers = [''L0'']\<rparr> = []"
proof -
  let ?three = "\<lparr>name = ''R'', label = ''r'', layers = [''L0'', ''L1'', ''L2'']\<rparr>"
  let ?one = "\<lparr>name = ''R'', label = ''r'', layers = [''L0'']\<rparr>"
  have three: "layers ?three \<noteq> []" "\<forall>layer \<in> set (layers ?three). layer \<noteq> []"
    by simp_all
  have one: "layers ?one \<noteq> []" "\<forall>layer \<in> set (layers ?one). layer \<noteq> []"
    by simp_all
  have "length (build_all_layer_queue_names ?three) = 2 * (length (layers ?three) - 1)"
    and "None \<notin> set (build_all_layer_queue_names ?three)"
    using build_all_layer_queue_names_count [OF three] by blast+
  moreover have "length (layers ?one) = 1 \<longrightarrow> build_all_layer_queue_names ?one = []"
    using build_all_layer_queue_names_count [OF one] by blast
  ultimately show ?thesis
    by simp
qed

subsection \<open>JSON text\<close>

declare str_of_nat.simps [simp del]














lemma skip_ws_simps [simp]:
  "skip_ws [] = []"
  "skip_ws (CHR '' '' # s) = skip_ws s"
  "\<not> is_ws c \<Longrightarrow> skip_ws (c # s) = c # s"
  by (simp_all add: skip_ws_def is_ws_def)

lemma is_ws_simps [simp]:
  "\<not> is_ws (CHR ''n'')" "\<not> is_ws (CHR ''t'')" "\<not> is_ws (CHR ''f'')" "\<not> is_ws (CHR 0x22)"
  "\<not> is_ws (CHR ''['')" "\<not> is_ws (CHR '']'')" "\<not> is_ws (CHR ''{'')" "\<not> is_ws (CHR ''}'')"
  "\<not> is_ws (CHR '','')" "\<not> is_ws (CHR '':'')" "\<not> is_ws (CHR ''-'')"
  by (simp_all add: is_ws_def)

lemma skip_ws_delimited: "delimited r \<Longrightarrow> skip_ws r = r"
  by (cases r) (auto simp: delimited_def)












lemma parse_value_space [simp]: "parse_value n (CHR '' '' # s) = parse_value n s"
  by (cases n) simp_all

lemma parse_elements_space [simp]: "parse_elements n (CHR '' '' # s) = parse_elements n s"
  by (cases n) simp_all

lemma parse_members_space [simp]: "parse_members n (CHR '' '' # s) = parse_members n s"
  by (cases n) simp_all






lemma delimited_simps [simp]:
  "delimited (CHR '','' # s)" "delimited (CHR '']'' # s)" "delimited (CHR ''}'' # s)" "delimited []"
  by (simp_all add: delimited_def)






subsection \<open>The message envelope\<close>

lemma build_message_nonempty:
  assumes "a < length h" and "h ! a \<noteq> []"
  shows "build_message self (Some a) message_type h =
           (json_dumps (PyDict (envelope self message_type (h ! a))),
            h[a := envelope self message_type (h ! a)])"
  using assms by (simp add: build_message_def envelope_def)

lemma build_message_empty:
  assumes "a < length h" and "h ! a = []"
  shows "build_message self (Some a) message_type h =
           (json_dumps (PyDict (envelope self message_type [])),
            h @ [envelope self message_type []])"
  using assms by (simp add: build_message_def envelope_def nth_append)

lemma build_message_None:
  "build_message self None message_type h =
     (json_dumps (PyDict (envelope self message_type [])), h @ [envelope self message_type []])"
  by (simp add: build_message_def envelope_def nth_append)




lemma map_of_envelope:
  "map_of (envelope self message_type d) =
     (map_of d)(''type'' \<mapsto> PyStr message_type, ''resource'' \<mapsto> PyStr (name self))"
  by (simp add: envelope_def update_conv')






text \<open>
  C10, as the claim states it, fails for an empty caller-supplied mapping: the empty
  dictionary is falsy, so \<^verbatim>\<open>message or {}\<close> is a new dictionary and the caller's own one
  stays empty.
\<close>

theorem build_message_in_place_counterexample:
  "\<not> (map_of (snd (build_message \<lparr>name = ''R'', label = ''r'', layers = [''L0'']\<rparr> (Some 0) ''data'' [[]]) ! 0)
        ''type'' = Some (PyStr ''data''))"
  by (simp add: build_message_def)

text \<open>
  C10, amended. \<^verbatim>\<open>build_message\<close> mutates a non-empty caller-supplied mapping in place:
  after the call the heap has no new object, the caller's mapping has \<^verbatim>\<open>type\<close> bound to the
  message type and \<^verbatim>\<open>resource\<close> bound to the name of the resource with all its other
  entries unchanged, and every other object is unchanged. For an empty caller-supplied
  mapping the heap is the old one, the caller's empty mapping included, with one new
  object after it: the mapping of \<^verbatim>\<open>type\<close> and \<^verbatim>\<open>resource\<close> alone.
\<close>

theorem build_message_in_place:
  assumes "a < length h"
  shows "(h ! a \<noteq> [] \<longrightarrow>
            length (snd (build_message self (Some a) message_type h)) = length h
            \<and> map_of (snd (build_message self (Some a) message_type h) ! a) =
                (map_of (h ! a))(''type'' \<mapsto> PyStr message_type, ''resource'' \<mapsto> PyStr (name self))
            \<and> (\<forall>b. b \<noteq> a \<longrightarrow> snd (build_message self (Some a) message_type h) ! b = h ! b))
       \<and> (h ! a = [] \<longrightarrow>
            snd (build_message self (Some a) message_type h) =
              h @ [[(''type'', PyStr message_type), (''resource'', PyStr (name self))]])"
  using assms
  by (simp add: build_message_nonempty build_message_empty map_of_envelope) (simp add: envelope_def)

theorem build_message_in_place_witness:
  "length (snd (build_message \<lparr>name = ''R'', label = ''r'', layers = [''L0'']\<rparr> (Some 1) ''data''
                  [[(''other'', PyNone)], [(''text'', PyStr ''hello'')]])) = 2
   \<and> map_of (snd (build_message \<lparr>name = ''R'', label = ''r'', layers = [''L0'']\<rparr> (Some 1) ''data''
                  [[(''other'', PyNone)], [(''text'', PyStr ''hello'')]]) ! 1) ''type''
       = Some (PyStr ''data'')
   \<and> map_of (snd (build_message \<lparr>name = ''R'', label = ''r'', layers = [''L0'']\<rparr> (Some 1) ''data''
                  [[(''other'', PyNone)], [(''text'', PyStr ''hello'')]]) ! 1) ''text''
       = Some (PyStr ''hello'')
   \<and> snd (build_message \<lparr>name = ''R'', label = ''r'', layers = [''L0'']\<rparr> (Some 1) ''data''
                  [[(''other'', PyNone)], [(''text'', PyStr ''hello'')]]) ! 0 = [(''other'', PyNone)]
   \<and> snd (build_message \<lparr>name = ''R'', label = ''r'', layers = [''L0'']\<rparr> (Some 0) ''data'' [[]])
       = [[], [(''type'', PyStr ''data''), (''resource'', PyStr ''R'')]]"
proof -
  let ?self = "\<lparr>name = ''R'', label = ''r'', layers = [''L0'']\<rparr>"
  let ?h = "[[(''other'', PyNone)], [(''text'', PyStr ''hello'')]]"
  let ?h' = "snd (build_message ?self (Some 1) ''data'' ?h)"
  have "1 < length ?h" by simp
  from build_message_in_place [OF this, of ?self "''data''"]
  have "length ?h' = length ?h"
    and m: "map_of (?h' ! 1) = (map_of (?h ! 1))(''type'' \<mapsto> PyStr ''data'', ''resource'' \<mapsto> PyStr (name ?self))"
    and "\<forall>b. b \<noteq> 1 \<longrightarrow> ?h' ! b = ?h ! b"
    by simp_all
  moreover have "(0 :: nat) < length [[] :: py_dict]" by simp
  from build_message_in_place [OF this, of ?self "''data''"]
  have "snd (build_message ?self (Some 0) ''data'' [[]])
          = [[], [(''type'', PyStr ''data''), (''resource'', PyStr ''R'')]]"
    by simp
  ultimately show ?thesis
    by (simp add: m)
qed

subsection \<open>Local queues\<close>

declare drain_loop.simps [simp del]

lemma drain_loop_all: "drain_loop messages queue = Some (messages @ queue, [])"
proof (induction queue arbitrary: messages)
  case Nil
  show ?case by (simp add: drain_loop.simps [of messages "[]"] Queue_empty_def)
next
  case (Cons m queue)
  show ?case
    by (simp add: drain_loop.simps [of messages "m # queue"] Queue_empty_def Queue_get_def Cons.IH)
qed

lemma push_message_queues:
  "consumer_local_queues (push_message_to_consumer_local_queue self queue_name message) =
     (consumer_local_queues self)(queue_name \<mapsto> pending self queue_name @ [message])"
  by (auto simp: push_message_to_consumer_local_queue_def get_consumer_local_queue_def
        Queue_put_def pending_def split: option.splits)

lemma push_message_frame:
  "connection (push_message_to_consumer_local_queue self queue_name message) = connection self"
  "channel (push_message_to_consumer_local_queue self queue_name message) = channel self"
  "state.more (push_message_to_consumer_local_queue self queue_name message) = state.more self"
  by (auto simp: push_message_to_consumer_local_queue_def get_consumer_local_queue_def
        split: option.splits)

lemma push_all_queues:
  "consumer_local_queues (push_all self queue_name messages) =
     (if messages = [] then consumer_local_queues self
      else (consumer_local_queues self)(queue_name \<mapsto> pending self queue_name @ messages))"
proof (induction messages arbitrary: self)
  case Nil
  show ?case by (simp add: push_all_def)
next
  case (Cons m messages)
  have "push_all self queue_name (m # messages)
          = push_all (push_message_to_consumer_local_queue self queue_name m) queue_name messages"
    by (simp add: push_all_def)
  then show ?case
    by (auto simp: Cons.IH push_message_queues pending_def fun_eq_iff)
qed

lemma pending_push_all:
  "pending (push_all self queue_name messages) queue_name = pending self queue_name @ messages"
  by (simp add: pending_def push_all_queues)

lemma get_messages_pending:
  "get_messages_from_consumer_local_queue self queue_name =
     Some (pending self queue_name,
           self\<lparr>consumer_local_queues := (consumer_local_queues self)(queue_name \<mapsto> [])\<rparr>)"
  by (auto simp: get_messages_from_consumer_local_queue_def get_consumer_local_queue_def
        drain_loop_all pending_def split: option.splits)

text \<open>
  C8. On a queue name with nothing buffered (no queue yet, or an empty one), after the
  push calls for the messages of any list, one call of
  \<^verbatim>\<open>get_messages_from_consumer_local_queue\<close> returns exactly these messages in push order,
  and the next call on the same name returns the empty list; neither call blocks.
\<close>

theorem drain_after_pushes:
  assumes "consumer_local_queues s queue_name = None
           \<or> consumer_local_queues s queue_name = Some []"
  shows "\<exists>s1. get_messages_from_consumer_local_queue
                    (push_all s queue_name messages) queue_name = Some (messages, s1)
               \<and> get_messages_from_consumer_local_queue s1 queue_name = Some ([], s1)"
proof -
  have "pending s queue_name = []"
    using assms by (auto simp: pending_def)
  then show ?thesis
    by (simp add: get_messages_pending pending_push_all) (simp add: pending_def)
qed

theorem drain_after_pushes_witness:
  "\<exists>s1. get_messages_from_consumer_local_queue
           (push_all (init ()) ''southbound.L1'' [''m1'', ''m2'', ''m3'']) ''southbound.L1''
         = Some ([''m1'', ''m2'', ''m3''], s1)
      \<and> get_messages_from_consumer_local_queue s1 ''southbound.L1'' = Some ([], s1)"
proof -
  have "consumer_local_queues (init () :: (string, unit) state) ''southbound.L1'' = None
        \<or> consumer_local_queues (init () :: (string, unit) state) ''southbound.L1'' = Some []"
    by (simp add: init_def)
  then show ?thesis
    by (rule drain_after_pushes)
qed

subsection \<open>The retry loops\<close>

lemmas sim_defs =
  subscribe_attempt_def ensure_channel_def call_def emit_def sim_env_def sim_lookup_def
  backoff_def attribute_error_def Let_def

lemma try_queue_subscribe_result:
  fixes env :: "'w environment" and s :: "('m, 'w) state"
  assumes "try_queue_subscribe env secs queue_name callback s = Some y"
  shows "case fst y of Inl e \<Rightarrow> \<not> is_ChannelClosed e | Inr u \<Rightarrow> True"
proof (rule try_queue_subscribe.raw_induct
        [where P = "\<lambda>env secs queue_name callback s y.
                      case fst y of Inl e \<Rightarrow> \<not> is_ChannelClosed e | Inr u \<Rightarrow> True",
         OF _ assms])
  fix rec :: "'w environment \<Rightarrow> nat \<Rightarrow> string \<Rightarrow> handle \<Rightarrow> ('m, 'w) state
                \<Rightarrow> ((failure + unit) \<times> ('m, 'w) state) option"
  fix env :: "'w environment" and secs queue_name callback and s :: "('m, 'w) state" and y
  let ?attempt = "subscribe_attempt env queue_name callback
                    (emit (Log DEBUG (''Trying to subscribe to queue: '' @ queue_name @ ''...'')) s)"
  assume IH: "\<And>env secs queue_name callback s y. rec env secs queue_name callback s = Some y
                \<Longrightarrow> case fst y of Inl e \<Rightarrow> \<not> is_ChannelClosed e | Inr u \<Rightarrow> True"
  assume body: "(case ?attempt of
                   (Inl e, s1) \<Rightarrow>
                     if is_ChannelClosed e
                     then rec env secs queue_name callback (backoff env secs e s1)
                     else Some (Inl e, s1)
                 | (Inr u, s1) \<Rightarrow> Some (Inr u, s1)) = Some y"
  obtain r s1 where att: "?attempt = (r, s1)"
    by (cases ?attempt)
  show "case fst y of Inl e \<Rightarrow> \<not> is_ChannelClosed e | Inr u \<Rightarrow> True"
  proof (cases r)
    case (Inr u)
    then show ?thesis using body att by auto
  next
    case (Inl e)
    show ?thesis
    proof (cases "is_ChannelClosed e")
      case False
      then show ?thesis using body att Inl by auto
    next
      case True
      then have "rec env secs queue_name callback (backoff env secs e s1) = Some y"
        using body att Inl by simp
      then show ?thesis by (rule IH)
    qed
  qed
qed

lemma try_queue_subscribe_surfaces_no_channel_closed:
  "try_queue_subscribe env secs queue_name callback s = Some (Inl e, s') \<Longrightarrow> \<not> is_ChannelClosed e"
  using try_queue_subscribe_result [of env secs queue_name callback s "(Inl e, s')"] by simp

lemma try_get_exchange_result:
  fixes env :: "'w environment" and s :: "('m, 'w) state"
  assumes "try_get_exchange env secs exchange_name s = Some y"
  shows "case fst y of Inl e \<Rightarrow> \<not> is_ChannelClosed e | Inr x \<Rightarrow> True"
proof (rule try_get_exchange.raw_induct
        [where P = "\<lambda>env secs exchange_name s y.
                      case fst y of Inl e \<Rightarrow> \<not> is_ChannelClosed e | Inr x \<Rightarrow> True",
         OF _ assms])
  fix rec :: "'w environment \<Rightarrow> nat \<Rightarrow> string \<Rightarrow> ('m, 'w) state
                \<Rightarrow> ((failure + handle) \<times> ('m, 'w) state) option"
  fix env :: "'w environment" and secs exchange_name and s :: "('m, 'w) state" and y
  let ?attempt = "exchange_attempt env exchange_name
                    (emit (Log DEBUG (''Trying to get exchange: '' @ exchange_name @ ''...'')) s)"
  assume IH: "\<And>env secs exchange_name s y. rec env secs exchange_name s = Some y
                \<Longrightarrow> case fst y of Inl e \<Rightarrow> \<not> is_ChannelClosed e | Inr x \<Rightarrow> True"
  assume body: "(case ?attempt of
                   (Inl e, s1) \<Rightarrow>
                     if is_ChannelClosed e
                     then rec env secs exchange_name (backoff env secs e s1)
                     else Some (Inl e, s1)
                 | (Inr exchange, s1) \<Rightarrow> Some (Inr exchange, s1)) = Some y"
  obtain r s1 where att: "?attempt = (r, s1)"
    by (cases ?attempt)
  show "case fst y of Inl e \<Rightarrow> \<not> is_ChannelClosed e | Inr x \<Rightarrow> True"
  proof (cases r)
    case (Inr x)
    then show ?thesis using body att by auto
  next
    case (Inl e)
    show ?thesis
    proof (cases "is_ChannelClosed e")
      case False
      then show ?thesis using body att Inl by auto
    next
      case True
      then have "rec env secs exchange_name (backoff env secs e s1) = Some y"
        using body att Inl by simp
      then show ?thesis by (rule IH)
    qed
  qed
qed

lemma try_get_exchange_surfaces_no_channel_closed:
  "try_get_exchange env secs exchange_name s = Some (Inl e, s') \<Longrightarrow> \<not> is_ChannelClosed e"
  using try_get_exchange_result [of env secs exchange_name s "(Inl e, s')"] by simp

lemma backoff_effect:
  "world (backoff env secs e s) = sleep env secs (world s)"
  "trace (backoff env secs e s) =
     trace s @ [Log WARNING (''Error occurred: '' @ str_of_failure e @ ''. Trying again in ''
                              @ str_of_nat secs @ '' seconds.''), Sleep secs]"
  "channel (backoff env secs e s) = channel s"
  "connection (backoff env secs e s) = connection s"
  by (simp_all add: backoff_def emit_def Let_def)

text \<open>
  C2. The retry loops of \<^verbatim>\<open>try_queue_subscribe\<close> and \<^verbatim>\<open>try_get_exchange\<close> catch the
  channel-closed class of failure and nothing else. When an attempt raises a failure of
  another class, the loop ends there with that failure and the state of that moment:
  nothing is logged, slept or tried after it. When an attempt raises a channel-closed
  failure, the loop goes on as the loop started from the state after the warning and the
  sleep of exactly the configured number of seconds. A run of either loop that ends never
  ends with a channel-closed failure.
\<close>

theorem retry_loops_catch_only_channel_closed:
  "(\<forall>e s1. subscribe_attempt env queue_name callback
               (emit (Log DEBUG (''Trying to subscribe to queue: '' @ queue_name @ ''...'')) s) = (Inl e, s1)
            \<and> \<not> is_ChannelClosed e
          \<longrightarrow> try_queue_subscribe env secs queue_name callback s = Some (Inl e, s1))
   \<and> (\<forall>e s1. subscribe_attempt env queue_name callback
               (emit (Log DEBUG (''Trying to subscribe to queue: '' @ queue_name @ ''...'')) s) = (Inl e, s1)
            \<and> is_ChannelClosed e
          \<longrightarrow> try_queue_subscribe env secs queue_name callback s
                = try_queue_subscribe env secs queue_name callback (backoff env secs e s1)
              \<and> world (backoff env secs e s1) = sleep env secs (world s1)
              \<and> trace (backoff env secs e s1) =
                  trace s1 @ [Log WARNING (''Error occurred: '' @ str_of_failure e
                                            @ ''. Trying again in '' @ str_of_nat secs @ '' seconds.''),
                              Sleep secs])
   \<and> (\<forall>e s'. try_queue_subscribe env secs queue_name callback s = Some (Inl e, s')
          \<longrightarrow> \<not> is_ChannelClosed e)
   \<and> (\<forall>e s1. exchange_attempt env exchange_name
               (emit (Log DEBUG (''Trying to get exchange: '' @ exchange_name @ ''...'')) s) = (Inl e, s1)
            \<and> \<not> is_ChannelClosed e
          \<longrightarrow> try_get_exchange env secs exchange_name s = Some (Inl e, s1))
   \<and> (\<forall>e s1. exchange_attempt env exchange_name
               (emit (Log DEBUG (''Trying to get exchange: '' @ exchange_name @ ''...'')) s) = (Inl e, s1)
            \<and> is_ChannelClosed e
          \<longrightarrow> try_get_exchange env secs exchange_name s
                = try_get_exchange env secs exchange_name (backoff env secs e s1)
              \<and> world (backoff env secs e s1) = sleep env secs (world s1)
              \<and> trace (backoff env secs e s1) =
                  trace s1 @ [Log WARNING (''Error occurred: '' @ str_of_failure e
                                            @ ''. Trying again in '' @ str_of_nat secs @ '' seconds.''),
                              Sleep secs])
   \<and> (\<forall>e s'. try_get_exchange env secs exchange_name s = Some (Inl e, s')
          \<longrightarrow> \<not> is_ChannelClosed e)"
proof (intro conjI allI impI)
  fix e s1
  assume "subscribe_attempt env queue_name callback
            (emit (Log DEBUG (''Trying to subscribe to queue: '' @ queue_name @ ''...'')) s) = (Inl e, s1)
          \<and> \<not> is_ChannelClosed e"
  then show "try_queue_subscribe env secs queue_name callback s = Some (Inl e, s1)"
    by (subst try_queue_subscribe.simps) simp
next
  fix e s1
  assume a: "subscribe_attempt env queue_name callback
            (emit (Log DEBUG (''Trying to subscribe to queue: '' @ queue_name @ ''...'')) s) = (Inl e, s1)
          \<and> is_ChannelClosed e"
  then show "try_queue_subscribe env secs queue_name callback s
                = try_queue_subscribe env secs queue_name callback (backoff env secs e s1)"
    by (subst try_queue_subscribe.simps) simp
  show "world (backoff env secs e s1) = sleep env secs (world s1)"
    by (rule backoff_effect)
  show "trace (backoff env secs e s1) =
          trace s1 @ [Log WARNING (''Error occurred: '' @ str_of_failure e
                                    @ ''. Trying again in '' @ str_of_nat secs @ '' seconds.''),
                      Sleep secs]"
    by (rule backoff_effect)
next
  fix e s'
  assume "try_queue_subscribe env secs queue_name callback s = Some (Inl e, s')"
  then show "\<not> is_ChannelClosed e"
    by (rule try_queue_subscribe_surfaces_no_channel_closed)
next
  fix e s1
  assume "exchange_attempt env exchange_name
            (emit (Log DEBUG (''Trying to get exchange: '' @ exchange_name @ ''...'')) s) = (Inl e, s1)
          \<and> \<not> is_ChannelClosed e"
  then show "try_get_exchange env secs exchange_name s = Some (Inl e, s1)"
    by (subst try_get_exchange.simps) simp
next
  fix e s1
  assume a: "exchange_attempt env exchange_name
            (emit (Log DEBUG (''Trying to get exchange: '' @ exchange_name @ ''...'')) s) = (Inl e, s1)
          \<and> is_ChannelClosed e"
  then show "try_get_exchange env secs exchange_name s
                = try_get_exchange env secs exchange_name (backoff env secs e s1)"
    by (subst try_get_exchange.simps) simp
  show "world (backoff env secs e s1) = sleep env secs (world s1)"
    by (rule backoff_effect)
  show "trace (backoff env secs e s1) =
          trace s1 @ [Log WARNING (''Error occurred: '' @ str_of_failure e
                                    @ ''. Trying again in '' @ str_of_nat secs @ '' seconds.''),
                      Sleep secs]"
    by (rule backoff_effect)
next
  fix e s'
  assume "try_get_exchange env secs exchange_name s = Some (Inl e, s')"
  then show "\<not> is_ChannelClosed e"
    by (rule try_get_exchange_surfaces_no_channel_closed)
qed

theorem retry_loops_catch_only_channel_closed_witness:
  "\<exists>s'. try_queue_subscribe sim_env 3 ''southbound.L1'' 7
           (sim_start [Some (ChannelClosed ''closed''), Some (OtherError ''AccessRefused''), None]
              :: (string, sim) state) = Some (Inl (OtherError ''AccessRefused''), s')
        \<and> clock (world s') = 3
        \<and> script (world s') = [None]"
proof -
  define s :: "(string, sim) state" where
    "s = sim_start [Some (ChannelClosed ''closed''), Some (OtherError ''AccessRefused''), None]"
  define s1 where
    "s1 = snd (subscribe_attempt sim_env ''southbound.L1'' 7
                 (emit (Log DEBUG (''Trying to subscribe to queue: '' @ ''southbound.L1'' @ ''...'')) s))"
  define s2 where "s2 = backoff sim_env 3 (ChannelClosed ''closed'') s1"
  define s3 where
    "s3 = snd (subscribe_attempt sim_env ''southbound.L1'' 7
                 (emit (Log DEBUG (''Trying to subscribe to queue: '' @ ''southbound.L1'' @ ''...'')) s2))"
  have first: "subscribe_attempt sim_env ''southbound.L1'' 7
                 (emit (Log DEBUG (''Trying to subscribe to queue: '' @ ''southbound.L1'' @ ''...'')) s)
               = (Inl (ChannelClosed ''closed''), s1)
               \<and> is_ChannelClosed (ChannelClosed ''closed'')"
    by (simp add: s1_def s_def sim_start_def sim_defs)
  have second: "subscribe_attempt sim_env ''southbound.L1'' 7
                 (emit (Log DEBUG (''Trying to subscribe to queue: '' @ ''southbound.L1'' @ ''...'')) s2)
               = (Inl (OtherError ''AccessRefused''), s3)
               \<and> \<not> is_ChannelClosed (OtherError ''AccessRefused'')"
    by (simp add: s3_def s2_def s1_def s_def sim_start_def sim_defs)
  have "try_queue_subscribe sim_env 3 ''southbound.L1'' 7 s
          = try_queue_subscribe sim_env 3 ''southbound.L1'' 7 s2"
    using retry_loops_catch_only_channel_closed
            [where env = sim_env and queue_name = "''southbound.L1''" and callback = 7 and s = s
               and secs = 3 and exchange_name = "''x''",
             THEN conjunct2, THEN conjunct1, rule_format, OF first]
    by (simp add: s2_def)
  also have "\<dots> = Some (Inl (OtherError ''AccessRefused''), s3)"
    using retry_loops_catch_only_channel_closed
            [where env = sim_env and queue_name = "''southbound.L1''" and callback = 7 and s = s2
               and secs = 3 and exchange_name = "''x''",
             THEN conjunct1, rule_format, OF second] .
  finally have run: "try_queue_subscribe sim_env 3 ''southbound.L1'' 7 s
                       = Some (Inl (OtherError ''AccessRefused''), s3)" .
  have "clock (world s3) = 3" and "script (world s3) = [None]"
    by (simp_all add: s3_def s2_def s1_def s_def sim_start_def sim_defs)
  then show ?thesis
    using run unfolding s_def by (intro exI [of _ s3] conjI)
qed

text \<open>
  C1. The simulated scenario: the resource is connected and its channel is open, the first
  two lookups of the queue raise a channel-closed failure (which leaves the channel of
  that attempt closed) and the third succeeds. Then \<^verbatim>\<open>try_queue_subscribe\<close> returns
  without an error; the events of the run are the ones listed, with exactly two calls of
  \<^verbatim>\<open>connection.channel()\<close>, one at the start of the second attempt and one at the start of
  the third; the callback is attached once, in the third attempt, to the queue found on the
  second new channel.
\<close>

theorem subscribe_recovers_from_two_channel_closed:
  fixes s :: "('m, sim) state"
  assumes "channel s = Some ch" and "connection s = Some cn"
    and "ch \<notin> set (closed_channels (world s))"
    and "script (world s) = Some (ChannelClosed m1) # Some (ChannelClosed m2) # None # rest"
  shows "\<exists>s'. try_queue_subscribe sim_env secs queue_name callback s = Some (Inr (), s')
           \<and> trace s' = trace s @
               [Log DEBUG (''Trying to subscribe to queue: '' @ queue_name @ ''...''),
                GetQueue ch queue_name,
                Raised (ChannelClosed m1),
                Log WARNING (''Error occurred: '' @ m1 @ ''. Trying again in ''
                              @ str_of_nat secs @ '' seconds.''),
                Sleep secs,
                Log DEBUG (''Trying to subscribe to queue: '' @ queue_name @ ''...''),
                Log INFO ''Previous channel was closed, creating new channel...'',
                ConnectionChannel cn,
                GetQueue (next_handle (world s)) queue_name,
                Raised (ChannelClosed m2),
                Log WARNING (''Error occurred: '' @ m2 @ ''. Trying again in ''
                              @ str_of_nat secs @ '' seconds.''),
                Sleep secs,
                Log DEBUG (''Trying to subscribe to queue: '' @ queue_name @ ''...''),
                Log INFO ''Previous channel was closed, creating new channel...'',
                ConnectionChannel cn,
                GetQueue (Suc (next_handle (world s))) queue_name,
                QueueConsume (Suc (Suc (next_handle (world s)))) callback,
                Log INFO (''Subscribed to queue: '' @ queue_name)]
           \<and> length (filter (\<lambda>ev. ev = ConnectionChannel cn) (drop (length (trace s)) (trace s'))) = 2
           \<and> consumers (world s') =
               consumers (world s) @ [(Suc (Suc (next_handle (world s))), callback)]
           \<and> channel s' = Some (Suc (next_handle (world s)))
           \<and> script (world s') = rest"
  apply (subst try_queue_subscribe.simps)
  apply (simp add: sim_defs assms)
  apply (subst try_queue_subscribe.simps)
  apply (simp add: sim_defs assms)
  apply (subst try_queue_subscribe.simps)
  apply (simp add: sim_defs assms)
  done


theorem subscribe_recovers_from_two_channel_closed_witness:
  "\<exists>s'. try_queue_subscribe sim_env 3 ''southbound.L1'' 7
           (sim_start [Some (ChannelClosed ''closed''), Some (ChannelClosed ''closed again''), None]
              :: (string, sim) state) = Some (Inr (), s')
        \<and> length (filter (\<lambda>ev. ev = ConnectionChannel 0) (trace s')) = 2
        \<and> consumers (world s') = [(4, 7)]
        \<and> channel s' = Some 3"
proof -
  define s :: "(string, sim) state" where
    "s = sim_start [Some (ChannelClosed ''closed''), Some (ChannelClosed ''closed again''), None]"
  have "channel s = Some 1" and "connection s = Some 0"
    and "1 \<notin> set (closed_channels (world s))"
    and "script (world s)
           = Some (ChannelClosed ''closed'') # Some (ChannelClosed ''closed again'') # None # []"
    by (simp_all add: s_def sim_start_def)
  from subscribe_recovers_from_two_channel_closed [OF this, of 3 "''southbound.L1''" 7]
  obtain s' where run: "try_queue_subscribe sim_env 3 ''southbound.L1'' 7 s = Some (Inr (), s')"
    and count: "length (filter (\<lambda>ev. ev = ConnectionChannel 0) (drop (length (trace s)) (trace s'))) = 2"
    and cons: "consumers (world s') = consumers (world s) @ [(Suc (Suc (next_handle (world s))), 7)]"
    and chan: "channel s' = Some (Suc (next_handle (world s)))"
    by (elim exE conjE)
  have "length (filter (\<lambda>ev. ev = ConnectionChannel 0) (trace s')) = 2"
    using count by (simp add: s_def sim_start_def)
  moreover have "consumers (world s') = [(4, 7)]"
    using cons by (simp add: s_def sim_start_def)
  moreover have "channel s' = Some 3"
    using chan by (simp add: s_def sim_start_def)
  ultimately show ?thesis
    using run unfolding s_def by (intro exI [of _ s'] conjI)
qed

subsection \<open>Connecting and disconnecting\<close>

lemmas disconnect_defs =
  disconnect_busses_def run_until_complete_def on_world_def emit_def attribute_error_def Let_def

lemmas connect_defs =
  connect_busses_in_thread_def get_busses_connection_and_channel_def run_forever_def
  run_until_complete_def on_world_def emit_def Let_def

text \<open>
  The order that \<^verbatim>\<open>disconnect_busses\<close> is written for. When the method returns, the loop
  was not running at the call, and the hook, the close of the channel and the close of
  the connection have run to their ends in this order, each from the world that the one
  before left; the stop of the loop is only posted.
\<close>

lemma disconnect_busses_order:
  assumes "disconnect_busses env self s = (Inr (), s')"
  shows "\<not> loop_running s
       \<and> (\<exists>ch cn w1 w2 w3.
             channel s = Some ch \<and> connection s = Some cn
           \<and> pre_disconnect env (world s) = (Inr (), w1)
           \<and> channel_close env ch w1 = (Inr (), w2)
           \<and> connection_close env cn w2 = (Inr (), w3)
           \<and> world s' = call_soon_threadsafe_stop env w3
           \<and> trace s' = trace s @
               [Log DEBUG (labeled_name self @ '' disconnecting from busses...''),
                RunUntilComplete PreDisconnect,
                RunUntilComplete (ChannelClose ch),
                RunUntilComplete (ConnectionClose cn),
                CallSoonThreadsafeStop,
                Log INFO (labeled_name self @ '' busses connection closed...'')])"
  using assms
  by (auto simp: disconnect_defs split: prod.splits sum.splits option.splits if_splits)

text \<open>
  Where the worker thread stays after \<^verbatim>\<open>connect_busses_in_thread\<close>: the connection and the
  channel are assigned and the loop is running.
\<close>

lemma run_until_complete_returns:
  assumes "run_until_complete c body s = (Inr a, s1)"
  shows "\<not> loop_running s \<and> body (emit (RunUntilComplete c) s) = (Inr a, s1)"
proof -
  obtain r s2 where b: "body (emit (RunUntilComplete c) s) = (r, s2)"
    by (cases "body (emit (RunUntilComplete c) s)")
  show ?thesis
    using assms b by (cases r; cases "loop_running s") (simp_all add: run_until_complete_def emit_def)
qed

lemma on_world_frame:
  assumes "on_world f s = (r, s1)"
  shows "connection s1 = connection s \<and> channel s1 = channel s \<and> loop_running s1 = loop_running s"
proof -
  obtain r' w where "f (world s) = (r', w)"
    by (cases "f (world s)")
  then show ?thesis
    using assms by (auto simp: on_world_def)
qed

lemma get_busses_connection_and_channel_assigns:
  assumes "get_busses_connection_and_channel env self s = (Inr (), s1)"
  shows "connection s1 \<noteq> None \<and> channel s1 \<noteq> None"
proof -
  let ?s0 = "emit (Log DEBUG (labeled_name self @ '' getting busses connection and channel...'')) s"
  obtain r s2 where w: "on_world (get_connection_and_channel env) ?s0 = (r, s2)"
    by (cases "on_world (get_connection_and_channel env) ?s0")
  show ?thesis
  proof (cases r)
    case (Inl e)
    then show ?thesis
      using assms w by (simp add: get_busses_connection_and_channel_def Let_def)
  next
    case (Inr p)
    obtain cn ch where "p = (cn, ch)" by (cases p)
    then show ?thesis
      using assms w Inr by (auto simp: get_busses_connection_and_channel_def Let_def emit_def)
  qed
qed

lemma run_forever_returns:
  assumes "run_forever s = (Inr (), s1)"
  shows "loop_running s1 \<and> connection s1 = connection s \<and> channel s1 = channel s"
  using assms by (cases "loop_running s") (auto simp: run_forever_def emit_def Let_def)

lemma connect_busses_in_thread_running:
  assumes "connect_busses_in_thread env self s = (Inr (), s1)"
  shows "loop_running s1 \<and> connection s1 \<noteq> None \<and> channel s1 \<noteq> None"
proof -
  let ?first = "run_until_complete GetBussesConnectionAndChannel
                  (get_busses_connection_and_channel env self) s"
  obtain r1 sa where first: "?first = (r1, sa)"
    by (cases ?first)
  obtain r2 sb where second: "run_until_complete PostConnect (on_world (post_connect env)) sa = (r2, sb)"
    by (cases "run_until_complete PostConnect (on_world (post_connect env)) sa")
  from assms first second
  have r1: "r1 = Inr ()" and r2: "r2 = Inr ()" and last: "run_forever sb = (Inr (), s1)"
    by (cases r1; cases r2; simp add: connect_busses_in_thread_def)+
  have a: "connection sa \<noteq> None \<and> channel sa \<noteq> None"
    using run_until_complete_returns [OF first [unfolded r1]]
      get_busses_connection_and_channel_assigns by blast
  have "on_world (post_connect env) (emit (RunUntilComplete PostConnect) sa) = (Inr (), sb)"
    using run_until_complete_returns [OF second [unfolded r2]] by simp
  from on_world_frame [OF this]
  have b: "connection sb = connection sa \<and> channel sb = channel sa"
    by (simp add: emit_def)
  show ?thesis
    using a b run_forever_returns [OF last] by simp
qed

text \<open>
  On a running loop \<^verbatim>\<open>disconnect_busses\<close> raises at its first step: the state it leaves
  differs from the one it found by the trace alone.
\<close>

lemma disconnect_busses_running_loop:
  assumes "loop_running s"
  shows "disconnect_busses env self s =
           (Inl (OtherError ''RuntimeError''),
            s\<lparr>trace := trace s @
                 [Log DEBUG (labeled_name self @ '' disconnecting from busses...''),
                  RunUntilComplete PreDisconnect,
                  Raised (OtherError ''RuntimeError'')]\<rparr>)"
  using assms by (simp add: disconnect_defs)

text \<open>Before connecting there is no channel, and \<^verbatim>\<open>disconnect_busses\<close> raises as well.\<close>

lemma disconnect_busses_without_channel:
  assumes "channel s = None"
  shows "fst (disconnect_busses env self s) \<noteq> Inr ()"
  using assms
  by (auto simp: disconnect_defs split: prod.splits sum.splits option.splits)

text \<open>
  C3. The claim is that \<^verbatim>\<open>disconnect_busses\<close> hands control back to its caller only after
  the hook, the close of the channel and the close of the connection have completed, in
  this order. The code does not do this in the state its own connect leaves: after
  \<^verbatim>\<open>connect_busses_in_thread\<close> has connected and entered \<^verbatim>\<open>run_forever\<close>, in whatever
  environment, \<^verbatim>\<open>disconnect_busses\<close> raises \<^verbatim>\<open>RuntimeError\<close> from its first
  \<^verbatim>\<open>run_until_complete\<close>. The hook has not run, the channel and the connection are as they
  were, the world is unchanged (nothing is closed, no stop is posted) and the loop is
  still running; the trace gains the log record, the refused call and the exception.
\<close>

theorem disconnect_busses_after_connect_raises:
  assumes "connect_busses_in_thread env self s = (Inr (), s1)"
  shows "fst (disconnect_busses env self s1) = Inl (OtherError ''RuntimeError'')
       \<and> world (snd (disconnect_busses env self s1)) = world s1
       \<and> channel (snd (disconnect_busses env self s1)) = channel s1
       \<and> connection (snd (disconnect_busses env self s1)) = connection s1
       \<and> loop_running (snd (disconnect_busses env self s1))
       \<and> trace (snd (disconnect_busses env self s1)) = trace s1 @
           [Log DEBUG (labeled_name self @ '' disconnecting from busses...''),
            RunUntilComplete PreDisconnect,
            Raised (OtherError ''RuntimeError'')]"
proof -
  have "loop_running s1"
    using connect_busses_in_thread_running [OF assms] by simp
  then show ?thesis
    by (simp add: disconnect_busses_running_loop)
qed

theorem disconnect_busses_after_connect_raises_witness:
  "\<exists>s1. connect_busses_in_thread sim_env \<lparr>name = ''R'', label = ''r'', layers = [''L0'']\<rparr>
           (init sim_new :: (string, sim) state) = (Inr (), s1)
        \<and> connection s1 = Some 0 \<and> channel s1 = Some 1
        \<and> fst (disconnect_busses sim_env \<lparr>name = ''R'', label = ''r'', layers = [''L0'']\<rparr> s1)
            = Inl (OtherError ''RuntimeError'')
        \<and> completed (world (snd (disconnect_busses sim_env
                                    \<lparr>name = ''R'', label = ''r'', layers = [''L0'']\<rparr> s1)))
            = [PostConnect]
        \<and> closed_channels (world (snd (disconnect_busses sim_env
                                    \<lparr>name = ''R'', label = ''r'', layers = [''L0'']\<rparr> s1))) = []
        \<and> \<not> stop_posted (world (snd (disconnect_busses sim_env
                                    \<lparr>name = ''R'', label = ''r'', layers = [''L0'']\<rparr> s1)))"
proof -
  define self :: settings where "self = \<lparr>name = ''R'', label = ''r'', layers = [''L0'']\<rparr>"
  define s1 :: "(string, sim) state" where
    "s1 = snd (connect_busses_in_thread sim_env self (init sim_new))"
  have "fst (connect_busses_in_thread sim_env self (init sim_new :: (string, sim) state)) = Inr ()"
    by (simp add: connect_defs sim_env_def init_def sim_new_def)
  then have run: "connect_busses_in_thread sim_env self (init sim_new) = (Inr (), s1)"
    by (simp add: s1_def prod_eq_iff)
  have st: "connection s1 = Some 0" "channel s1 = Some 1"
    "completed (world s1) = [PostConnect]" "closed_channels (world s1) = []"
    "\<not> stop_posted (world s1)"
    by (simp_all add: s1_def connect_defs sim_env_def init_def sim_new_def)
  from disconnect_busses_after_connect_raises [OF run]
  have "fst (disconnect_busses sim_env self s1) = Inl (OtherError ''RuntimeError'')"
    and "world (snd (disconnect_busses sim_env self s1)) = world s1"
    by simp_all
  with st run show ?thesis
    unfolding self_def by (intro exI [of _ s1]) simp
qed

end
